theory Spec2Isabelle
  imports Main
begin

section \<open>Values and exceptions\<close>

text \<open>
  JSON values: the forms, schemas and settings data of the wire protocol, handler
  results and parsed replies. A Python dict is an association list in insertion order;
  \<open>JNull\<close> is Python's \<open>None\<close>. Caller-supplied details, which need not be JSON,
  have the type \<open>pyval\<close> below.
\<close>

datatype json =
    JNull
  | JBool bool
  | JInt int
  | JStr string
  | JList "json list"
  | JDict "(string \<times> json) list"

type_synonym dict = "(string \<times> json) list"

text \<open>Python truthiness, as used by \<open>if x:\<close> and \<open>x or y\<close>.\<close>

fun truthy :: "json \<Rightarrow> bool" where
  "truthy JNull = False"
| "truthy (JBool b) = b"
| "truthy (JInt i) = (i \<noteq> 0)"
| "truthy (JStr s) = (s \<noteq> [])"
| "truthy (JList xs) = (xs \<noteq> [])"
| "truthy (JDict kvs) = (kvs \<noteq> [])"

fun truthy_str :: "string option \<Rightarrow> bool" where
  "truthy_str None = False"
| "truthy_str (Some s) = (s \<noteq> [])"

fun truthy_dict :: "dict option \<Rightarrow> bool" where
  "truthy_dict None = False"
| "truthy_dict (Some d) = (d \<noteq> [])"

text \<open>\<open>a or b\<close> on optional strings.\<close>

definition py_or :: "string option \<Rightarrow> string option \<Rightarrow> string option" where
  "py_or a b = (if truthy_str a then a else b)"

text \<open>How an f-string renders an \<open>Optional[str]\<close>: \<open>None\<close> prints as the text None.\<close>

fun fmt :: "string option \<Rightarrow> string" where
  "fmt None = ''None''"
| "fmt (Some s) = s"

text \<open>
  The exception classes the code raises or catches; all of them are subclasses of
  Python's \<open>Exception\<close>. The string of a \<open>ValueError\<close> is its message.
\<close>

datatype exc =
    ValueError string
  | AttributeError
  | NoRespondersError
  | TimeoutError
  | UnicodeDecodeError
  | JSONDecodeError
  | TypeError
  | OtherError string

text \<open>
  Byte strings sent on the wire are kept symbolic: \<open>Dumps v\<close> is
  \<open>json.dumps(v).encode()\<close>, \<open>StrOf v\<close> is \<open>str(v).encode()\<close> and \<open>Bytes s\<close> is the
  literal \<open>b"s"\<close>.
\<close>

datatype payload = Dumps json | StrOf json | Bytes string

text \<open>
  The details of a job progress and of an event are \<open>Dict[str, Any]\<close> filled in by the
  caller. A value of type \<open>Any\<close> is kept as \<open>json.dumps\<close> sees it: a JSON value, or a
  value it raises \<open>TypeError\<close> on (a set, a datetime, an arbitrary object, and any
  container holding one). The forms, schemas and settings data are the JSON documents
  of the wire protocol.
\<close>

datatype pyval = Json json | Unserialisable

type_synonym any_dict = "(string \<times> pyval) list"

text \<open>The JSON form of a list and of a dict, when every member has one.\<close>

fun json_values :: "pyval list \<Rightarrow> json list option" where
  "json_values [] = Some []"
| "json_values (Json j # vs) = map_option ((#) j) (json_values vs)"
| "json_values (Unserialisable # vs) = None"

fun json_items :: "any_dict \<Rightarrow> dict option" where
  "json_items [] = Some []"
| "json_items ((k, Json j) # kvs) = map_option ((#) (k, j)) (json_items kvs)"
| "json_items ((k, Unserialisable) # kvs) = None"

text \<open>A Python list and a Python dict as values: unserialisable as soon as a member is.\<close>

definition py_list :: "pyval list \<Rightarrow> pyval" where
  "py_list vs = (case json_values vs of Some js \<Rightarrow> Json (JList js) | None \<Rightarrow> Unserialisable)"

definition py_dict :: "any_dict \<Rightarrow> pyval" where
  "py_dict d = (case json_items d of Some js \<Rightarrow> Json (JDict js) | None \<Rightarrow> Unserialisable)"

text \<open>\<open>json.dumps(v).encode()\<close>: the bytes, or \<open>TypeError\<close>.\<close>

definition json_dumps :: "pyval \<Rightarrow> exc + payload" where
  "json_dumps v = (case v of Json j \<Rightarrow> Inr (Dumps j) | Unserialisable \<Rightarrow> Inl TypeError)"

text \<open>
  The bytes of a received message, classified by what \<open>data.decode()\<close> and
  \<open>json.loads\<close> do with them: no bytes at all, bytes that are not UTF-8, text that is
  not JSON, and the text of a JSON value.
\<close>

datatype body = Empty | Invalid_utf8 | Not_json | Json_text json

record Msg =
  data :: body

section \<open>models: types.py and models.py\<close>

datatype Command = PROGRESS | STOP | CONTEXT_CURRENT | CONTEXT_PATH

fun Command_value :: "Command \<Rightarrow> string" where
  "Command_value PROGRESS = ''progress''"
| "Command_value STOP = ''stop''"
| "Command_value CONTEXT_CURRENT = ''context/current''"
| "Command_value CONTEXT_PATH = ''context/path''"

datatype EventType = LOG

fun EventType_value :: "EventType \<Rightarrow> string" where
  "EventType_value LOG = ''log''"

datatype LogLevel = DEBUG | INFO | WARN | ERROR

fun LogLevel_value :: "LogLevel \<Rightarrow> string" where
  "LogLevel_value DEBUG = ''debug''"
| "LogLevel_value INFO = ''info''"
| "LogLevel_value WARN = ''warn''"
| "LogLevel_value ERROR = ''error''"

text \<open>
  What calling a user handler gives: a plain value, a coroutine (with what awaiting it
  gives), or an exception raised by the call itself.
\<close>

datatype hresult = Returns json | Coroutine "exc + json" | Raises exc

type_synonym handler_fn = "Msg \<Rightarrow> hresult"

record Icon =
  ref :: string
  icon :: string

record Requirements =
  reply_to :: string
  jsonui :: dict
  jsonschema :: dict
  handler :: "handler_fn option"

record PluginIntro =
  name :: string
  author :: string
  version :: string
  requirements :: "Requirements option"

record ActionFormBuilder =
  jsonui :: dict
  jsonschema :: dict

record Action =
  "method" :: string
  title :: string
  description :: string
  icon :: Icon
  form :: "ActionFormBuilder option"
  request_handler :: "handler_fn option"

record Settings =
  jsonui :: dict
  jsonschema :: dict
  reply_to :: string
  data :: "dict option"
  handler :: "handler_fn option"

text \<open>
  The dataclass constructor of \<open>Settings\<close>: \<open>reply_to_arg = None\<close> is the keyword
  left out, which gives the field its declared default.
\<close>

definition Settings_init ::
  "dict \<Rightarrow> dict \<Rightarrow> string option \<Rightarrow> dict option \<Rightarrow> handler_fn option \<Rightarrow> Settings" where
  "Settings_init ui schema reply_to_arg data_arg handler_arg =
     \<lparr> Settings.jsonui = ui, Settings.jsonschema = schema,
       Settings.reply_to = (case reply_to_arg of None \<Rightarrow> ''_settings.config.submit'' | Some r \<Rightarrow> r),
       Settings.data = data_arg, Settings.handler = handler_arg \<rparr>"

record Frame =
  title :: string
  content :: string

record JobProgress =
  progress :: int
  frame :: Frame
  details :: "any_dict option"

record PluginEvent =
  event :: EventType
  level :: LogLevel
  source :: string
  message :: string
  timestamp :: int
  details :: "any_dict option"

section \<open>Effects and the transport\<close>

text \<open>
  The closures that \<open>Plugin\<close> hands to \<open>conn.subscribe\<close>, named after the inner
  functions of plugin.py. The per-action closures capture their action (\<open>act=action\<close>).
\<close>

datatype callback =
    Intro_callback
  | Req_callback
  | Settings_callback
  | Submit_callback
  | List_callback
  | Form_callback Action
  | Request_callback Action

datatype logging_level = Info | Warning | Error

text \<open>
  Everything the code does to the outside, in the order it does it:
  \<open>conn.subscribe(subject, cb)\<close>, \<open>conn.request(subject, body, timeout, headers)\<close>,
  \<open>conn.flush()\<close>, \<open>asyncio.sleep(n)\<close>, \<open>msg.respond(bytes)\<close>, a call of the Python
  logger at a level, and \<open>print\<close>. The text of log lines is not kept.
\<close>

datatype effect =
    Subscribe string callback
  | Request string payload nat "(string \<times> string) list option"
  | Flush
  | Sleep nat
  | Respond payload
  | Logged logging_level
  | Printed

type_synonym trace = "effect list"

text \<open>
  The connection: what a call answers, given everything done before it. A subscribe
  or a flush raises or not; a request raises or returns a message.
\<close>

record transport =
  subscribe_outcome :: "trace \<Rightarrow> string \<Rightarrow> exc option"
  request_outcome :: "trace \<Rightarrow> string \<Rightarrow> payload \<Rightarrow> exc + Msg"
  flush_outcome :: "trace \<Rightarrow> exc option"

text \<open>Sequencing of steps that may raise: the first exception ends the sequence.\<close>

definition and_then ::
  "(exc + 'a) \<times> trace \<Rightarrow> ('a \<Rightarrow> trace \<Rightarrow> (exc + 'b) \<times> trace) \<Rightarrow> (exc + 'b) \<times> trace" where
  "and_then m f = (case m of (Inl e, w) \<Rightarrow> (Inl e, w) | (Inr a, w) \<Rightarrow> f a w)"

section \<open>sorenv.py: Config and SorenSDK\<close>

record Config =
  agent_uri :: "string option"
  plugin_id :: "string option"
  auth_key :: "string option"
  event_channel :: "string option"
  store_channel :: "string option"

text \<open>\<open>Config.__init__\<close>; \<open>getenv\<close> is the process environment (\<open>os.getenv\<close>).\<close>

definition Config_init ::
  "(string \<Rightarrow> string option) \<Rightarrow> string option \<Rightarrow> string option \<Rightarrow> string option \<Rightarrow>
   string option \<Rightarrow> string option \<Rightarrow> Config" where
  "Config_init getenv agent_uri_arg plugin_id_arg auth_key_arg event_channel_arg store_channel_arg =
     \<lparr> agent_uri = py_or agent_uri_arg (getenv ''AGENT_URI''),
       plugin_id = py_or plugin_id_arg (getenv ''PLUGIN_ID''),
       auth_key = py_or auth_key_arg (getenv ''SOREN_AUTH_KEY''),
       event_channel = py_or event_channel_arg (getenv ''SOREN_EVENT_CHANNEL''),
       store_channel = py_or store_channel_arg (getenv ''SOREN_STORE'') \<rparr>"

text \<open>The SDK object; \<open>conn\<close> is \<open>None\<close> until \<open>connect\<close> has run.\<close>

record SorenSDK =
  config :: Config
  conn :: "transport option"
  closed :: bool

definition SorenSDK_init :: "Config \<Rightarrow> exc + SorenSDK" where
  "SorenSDK_init c =
     (if \<not> truthy_str (agent_uri c) then Inl (ValueError ''agent URI is required'')
      else if \<not> truthy_str (plugin_id c) then Inl (ValueError ''plugin ID is required'')
      else Inr \<lparr> config = c, conn = None, closed = False \<rparr>)"

definition NewFromEnv :: "(string \<Rightarrow> string option) \<Rightarrow> exc + SorenSDK" where
  "NewFromEnv getenv = SorenSDK_init (Config_init getenv None None None None None)"

definition get_plugin_id :: "SorenSDK \<Rightarrow> string option" where
  "get_plugin_id s = plugin_id (config s)"

definition make_subject :: "SorenSDK \<Rightarrow> string \<Rightarrow> string" where
  "make_subject s action = ''soren.v2.'' @ fmt (plugin_id (config s)) @ ''.'' @ action"

definition make_settings_subject :: "SorenSDK \<Rightarrow> string" where
  "make_settings_subject s = ''soren.v2.'' @ fmt (plugin_id (config s)) @ ''.@settings''"

definition make_actions_list_subject :: "SorenSDK \<Rightarrow> string" where
  "make_actions_list_subject s = ''soren.v2.'' @ fmt (plugin_id (config s)) @ ''.@actions''"

definition make_intro_subject :: "SorenSDK \<Rightarrow> string" where
  "make_intro_subject s = ''soren.v2.'' @ fmt (plugin_id (config s)) @ ''.@intro''"

definition make_action_cpu :: "SorenSDK \<Rightarrow> string \<Rightarrow> string" where
  "make_action_cpu s action = ''soren.cpu.'' @ fmt (plugin_id (config s)) @ ''.'' @ action"

definition make_job_subject :: "SorenSDK \<Rightarrow> string \<Rightarrow> string \<Rightarrow> string" where
  "make_job_subject s job_id job_update =
     ''soren.cpu.'' @ fmt (plugin_id (config s)) @ ''.'' @ job_id @ ''.'' @ job_update"

definition make_form_subject :: "SorenSDK \<Rightarrow> string \<Rightarrow> string" where
  "make_form_subject s action =
     ''soren.v2.'' @ fmt (plugin_id (config s)) @ ''.'' @ action @ ''.@form''"

definition make_progress_subject :: "SorenSDK \<Rightarrow> string \<Rightarrow> string" where
  "make_progress_subject s job_id =
     ''soren.cpu.'' @ fmt (plugin_id (config s)) @ ''.'' @ job_id @ ''.*''"

text \<open>
  \<open>self.sdk.conn.subscribe(subject, cb=...)\<close>: on a missing connection the attribute
  access raises before anything reaches the transport.
\<close>

definition conn_subscribe :: "SorenSDK \<Rightarrow> string \<Rightarrow> callback \<Rightarrow> trace \<Rightarrow> (exc + unit) \<times> trace" where
  "conn_subscribe s subject cb w =
     (case conn s of
        None \<Rightarrow> (Inl AttributeError, w)
      | Some t \<Rightarrow>
          (case subscribe_outcome t w subject of
             Some e \<Rightarrow> (Inl e, w @ [Subscribe subject cb])
           | None \<Rightarrow> (Inr (), w @ [Subscribe subject cb])))"

text \<open>\<open>self.sdk.conn.request(subject, body, timeout=3, headers=...)\<close>.\<close>

definition conn_request ::
  "SorenSDK \<Rightarrow> string \<Rightarrow> payload \<Rightarrow> (string \<times> string) list option \<Rightarrow> trace \<Rightarrow> (exc + Msg) \<times> trace" where
  "conn_request s subject body headers w =
     (case conn s of
        None \<Rightarrow> (Inl AttributeError, w)
      | Some t \<Rightarrow> (request_outcome t w subject body, w @ [Request subject body 3 headers]))"

definition conn_flush :: "SorenSDK \<Rightarrow> trace \<Rightarrow> (exc + unit) \<times> trace" where
  "conn_flush s w =
     (case conn s of
        None \<Rightarrow> (Inl AttributeError, w)
      | Some t \<Rightarrow>
          (case flush_outcome t w of
             Some e \<Rightarrow> (Inl e, w @ [Flush])
           | None \<Rightarrow> (Inr (), w @ [Flush])))"

definition logger :: "logging_level \<Rightarrow> trace \<Rightarrow> (exc + unit) \<times> trace" where
  "logger lvl w = (Inr (), w @ [Logged lvl])"

section \<open>plugin.py: Plugin\<close>

record Plugin =
  sdk :: SorenSDK
  intro :: "PluginIntro option"
  settings :: "Settings option"
  actions :: "Action list"

definition Plugin_init :: "SorenSDK \<Rightarrow> Plugin" where
  "Plugin_init s = \<lparr> sdk = s, intro = None, settings = None, actions = [] \<rparr>"

text \<open>
  \<open>set_intro\<close>: the handler is stored in the requirements object, and only if there is
  one and the handler argument is given.
\<close>

definition set_intro :: "Plugin \<Rightarrow> PluginIntro \<Rightarrow> handler_fn option \<Rightarrow> Plugin" where
  "set_intro p i handler_arg =
     (case (requirements i, handler_arg) of
        (Some r, Some h) \<Rightarrow>
          p\<lparr>intro := Some (i\<lparr>requirements := Some (r\<lparr>Requirements.handler := Some h\<rparr>)\<rparr>)\<rparr>
      | _ \<Rightarrow> p\<lparr>intro := Some i\<rparr>)"

definition set_settings :: "Plugin \<Rightarrow> Settings \<Rightarrow> handler_fn option \<Rightarrow> Plugin" where
  "set_settings p s handler_arg =
     (case handler_arg of
        Some h \<Rightarrow> p\<lparr>settings := Some (s\<lparr>Settings.handler := Some h\<rparr>)\<rparr>
      | None \<Rightarrow> p\<lparr>settings := Some s\<rparr>)"

definition set_actions :: "Plugin \<Rightarrow> Action list \<Rightarrow> Plugin" where
  "set_actions p as = p\<lparr>actions := as\<rparr>"

definition add_actions :: "Plugin \<Rightarrow> Action list \<Rightarrow> Plugin" where
  "add_actions p as = p\<lparr>actions := actions p @ as\<rparr>"

subsection \<open>The callbacks\<close>

text \<open>
  The block shared by \<open>req_callback\<close>, \<open>submit_callback\<close> and \<open>request_callback\<close>:
  \<open>if result:\<close>, await a coroutine, encode a dict with \<open>json.dumps\<close> and anything else
  with \<open>str\<close>, respond. A coroutine object is truthy whatever it will give.
\<close>

definition encode_result :: "json \<Rightarrow> payload" where
  "encode_result v = (case v of JDict d \<Rightarrow> Dumps v | _ \<Rightarrow> StrOf v)"

definition respond_result :: "hresult \<Rightarrow> trace \<Rightarrow> (exc + unit) \<times> trace" where
  "respond_result r w =
     (case r of
        Raises e \<Rightarrow> (Inl e, w)
      | Returns v \<Rightarrow> (if truthy v then (Inr (), w @ [Respond (encode_result v)]) else (Inr (), w))
      | Coroutine c \<Rightarrow>
          (case c of
             Inl e \<Rightarrow> (Inl e, w)
           | Inr v \<Rightarrow> (Inr (), w @ [Respond (encode_result v)])))"

definition not_implemented :: payload where
  \<open>not_implemented = Bytes ''{"status":"not implemented"}''\<close>

definition intro_callback :: "Plugin \<Rightarrow> trace \<Rightarrow> (exc + unit) \<times> trace" where
  "intro_callback p w =
     (case intro p of
        None \<Rightarrow> (Inl AttributeError, w)
      | Some i \<Rightarrow>
          (let intro_dict =
                 [(''name'', JStr (name i)), (''author'', JStr (author i)),
                  (''version'', JStr (version i))] @
                 (case requirements i of
                    None \<Rightarrow> []
                  | Some r \<Rightarrow>
                      [(''requirements'',
                        JDict [(''replyTo'', JStr (Requirements.reply_to r)),
                               (''jsonui'', JDict (Requirements.jsonui r)),
                               (''jsonschema'', JDict (Requirements.jsonschema r))])])
           in (Inr (), w @ [Respond (Dumps (JDict intro_dict))])))"

definition req_callback :: "Plugin \<Rightarrow> Msg \<Rightarrow> trace \<Rightarrow> (exc + unit) \<times> trace" where
  "req_callback p m w =
     (case intro p of
        None \<Rightarrow> (Inl AttributeError, w)
      | Some i \<Rightarrow>
          (case requirements i of
             None \<Rightarrow> (Inl AttributeError, w)
           | Some r \<Rightarrow>
               (case Requirements.handler r of
                  Some h \<Rightarrow> respond_result (h m) w
                | None \<Rightarrow> (Inr (), w @ [Respond not_implemented]))))"

definition settings_callback :: "Plugin \<Rightarrow> trace \<Rightarrow> (exc + unit) \<times> trace" where
  "settings_callback p w0 =
     (let w = w0 @ [Logged Info] in
      case settings p of
        None \<Rightarrow> (Inr (), w @ [Respond (Bytes ''null'')])
      | Some s \<Rightarrow>
          (let reply_to =
                 (if Settings.reply_to s \<noteq> [] then Settings.reply_to s
                  else ''_settings.config.submit'');
               settings_dict =
                 [(''replyTo'', JStr reply_to),
                  (''jsonui'', JDict (Settings.jsonui s)),
                  (''jsonschema'', JDict (Settings.jsonschema s))] @
                 (case Settings.data s of
                    None \<Rightarrow> []
                  | Some d \<Rightarrow> (if d \<noteq> [] then [(''data'', JDict d)] else []))
           in (Inr (), w @ [Respond (Dumps (JDict settings_dict))])))"

definition submit_callback :: "Plugin \<Rightarrow> Msg \<Rightarrow> trace \<Rightarrow> (exc + unit) \<times> trace" where
  "submit_callback p m w =
     (case settings p of
        None \<Rightarrow> (Inl AttributeError, w)
      | Some s \<Rightarrow>
          (case Settings.handler s of
             Some h \<Rightarrow> respond_result (h m) w
           | None \<Rightarrow> (Inr (), w @ [Respond not_implemented])))"

definition action_dict :: "Action \<Rightarrow> json" where
  "action_dict a =
     JDict [(''method'', JStr (method a)), (''title'', JStr (Action.title a)),
            (''description'', JStr (description a)),
            (''icon'', JDict [(''ref'', JStr (ref (Action.icon a))),
                              (''icon'', JStr (Icon.icon (Action.icon a)))])]"

definition list_callback :: "Plugin \<Rightarrow> trace \<Rightarrow> (exc + unit) \<times> trace" where
  "list_callback p w = (Inr (), w @ [Respond (Dumps (JList (map action_dict (actions p))))])"

definition form_callback :: "Action \<Rightarrow> trace \<Rightarrow> (exc + unit) \<times> trace" where
  "form_callback act w =
     (case form act of
        None \<Rightarrow> (Inr (), w @ [Respond (Bytes ''{}'')])
      | Some f \<Rightarrow>
          (Inr (), w @ [Respond (Dumps (JDict [(''jsonui'', JDict (ActionFormBuilder.jsonui f)),
                                               (''jsonschema'', JDict (ActionFormBuilder.jsonschema f))]))]))"

definition request_callback :: "Action \<Rightarrow> Msg \<Rightarrow> trace \<Rightarrow> (exc + unit) \<times> trace" where
  "request_callback act m w =
     (case request_handler act of
        Some h \<Rightarrow> respond_result (h m) w
      | None \<Rightarrow> (Inr (), w))"

text \<open>The transport calling a subscribed closure with a message.\<close>

fun invoke :: "Plugin \<Rightarrow> callback \<Rightarrow> Msg \<Rightarrow> trace \<Rightarrow> (exc + unit) \<times> trace" where
  "invoke p Intro_callback m w = intro_callback p w"
| "invoke p Req_callback m w = req_callback p m w"
| "invoke p Settings_callback m w = settings_callback p w"
| "invoke p Submit_callback m w = submit_callback p m w"
| "invoke p List_callback m w = list_callback p w"
| "invoke p (Form_callback act) m w = form_callback act w"
| "invoke p (Request_callback act) m w = request_callback act m w"

subsection \<open>Binding the subscriptions\<close>

definition intro_handler :: "Plugin \<Rightarrow> trace \<Rightarrow> (exc + unit) \<times> trace" where
  "intro_handler p w =
     (case intro p of
        None \<Rightarrow> (Inr (), w)
      | Some i \<Rightarrow>
          and_then (conn_subscribe (sdk p) (make_intro_subject (sdk p)) Intro_callback w) (\<lambda>_ w.
          and_then (logger Info w) (\<lambda>_ w.
            (case requirements i of
               None \<Rightarrow> (Inr (), w)
             | Some r \<Rightarrow>
                 (if Requirements.reply_to r \<noteq> [] then
                    and_then (conn_subscribe (sdk p)
                                (make_subject (sdk p) (Requirements.reply_to r)) Req_callback w) (\<lambda>_ w.
                    logger Info w)
                  else (Inr (), w))))))"

definition settings_handler :: "Plugin \<Rightarrow> trace \<Rightarrow> (exc + unit) \<times> trace" where
  "settings_handler p w =
     and_then (conn_subscribe (sdk p) (make_settings_subject (sdk p)) Settings_callback w) (\<lambda>_ w.
     and_then (logger Info w) (\<lambda>_ w.
       (case settings p of
          None \<Rightarrow> (Inr (), w)
        | Some s \<Rightarrow>
            (let reply_to =
                   (if Settings.reply_to s \<noteq> [] then Settings.reply_to s
                    else ''_settings.config.submit'');
                 submit_subject = make_subject (sdk p) reply_to
             in and_then (conn_subscribe (sdk p) submit_subject Submit_callback w) (\<lambda>_ w.
                logger Info w)))))"

text \<open>The \<open>for action in self.actions\<close> loop of \<open>actions_handler\<close>.\<close>

fun bind_actions :: "SorenSDK \<Rightarrow> Action list \<Rightarrow> trace \<Rightarrow> (exc + unit) \<times> trace" where
  "bind_actions s [] w = (Inr (), w)"
| "bind_actions s (action # rest) w =
     and_then (conn_subscribe s (make_form_subject s (method action)) (Form_callback action) w) (\<lambda>_ w.
     and_then (logger Info w) (\<lambda>_ w.
     and_then (conn_subscribe s (make_action_cpu s (method action)) (Request_callback action) w) (\<lambda>_ w.
     and_then (logger Info w) (\<lambda>_ w.
     bind_actions s rest w))))"

definition actions_handler :: "Plugin \<Rightarrow> trace \<Rightarrow> (exc + unit) \<times> trace" where
  "actions_handler p w =
     and_then (conn_subscribe (sdk p) (make_actions_list_subject (sdk p)) List_callback w) (\<lambda>_ w.
     and_then (logger Info w) (\<lambda>_ w.
     bind_actions (sdk p) (actions p) w))"

definition start :: "Plugin \<Rightarrow> trace \<Rightarrow> (exc + unit) \<times> trace" where
  "start p w =
     and_then (intro_handler p w) (\<lambda>_ w.
     and_then (settings_handler p w) (\<lambda>_ w.
     and_then (actions_handler p w) (\<lambda>_ w.
     logger Info w)))"

subsection \<open>Job progress\<close>

text \<open>What \<open>progress\<close> returns: the reply, a caught exception as a value, or nothing.\<close>

datatype progress_result = Returned_msg Msg | Returned_exc exc | Returned_None

text \<open>
  The body of the \<open>try\<close> in \<open>progress\<close>: request, flush, log the decoded reply
  (decoding is skipped for an empty reply), return the message.
\<close>

definition progress_attempt :: "SorenSDK \<Rightarrow> string \<Rightarrow> payload \<Rightarrow> trace \<Rightarrow> (exc + Msg) \<times> trace" where
  "progress_attempt s sub data_bytes w =
     and_then (conn_request s sub data_bytes None w) (\<lambda>msg w.
     and_then (conn_flush s w) (\<lambda>_ w.
       (case Msg.data msg of
          Invalid_utf8 \<Rightarrow> (Inl UnicodeDecodeError, w)
        | _ \<Rightarrow> and_then (logger Info w) (\<lambda>_ w. (Inr msg, w)))))"

text \<open>
  The \<open>for attempt in range(max_retries)\<close> loop with its two \<open>except\<close> clauses, over
  the attempts still to make. Falling out of the loop returns \<open>None\<close>.
\<close>

fun progress_loop ::
  "SorenSDK \<Rightarrow> string \<Rightarrow> payload \<Rightarrow> nat \<Rightarrow> nat list \<Rightarrow> trace \<Rightarrow> (exc + progress_result) \<times> trace" where
  "progress_loop s sub data_bytes max_retries [] w = (Inr Returned_None, w)"
| "progress_loop s sub data_bytes max_retries (attempt # rest) w =
     (case progress_attempt s sub data_bytes w of
        (Inr msg, w1) \<Rightarrow> (Inr (Returned_msg msg), w1)
      | (Inl e, w1) \<Rightarrow>
          (if e = NoRespondersError then
             (if attempt < max_retries - 1 then
                progress_loop s sub data_bytes max_retries rest
                  ((if attempt \<ge> 1 then w1 @ [Logged Warning] else w1) @ [Sleep 1])
              else (Inr (Returned_exc e), w1 @ [Logged Error]))
           else (Inr (Returned_exc e), w1 @ [Logged Error])))"

text \<open>
  \<open>progress\<close>: the subject and the dict are built and the dict is serialised before the
  loop and outside its \<open>try\<close>, so a \<open>TypeError\<close> of \<open>json.dumps\<close> is raised to the
  caller.
\<close>

definition progress ::
  "Plugin \<Rightarrow> string \<Rightarrow> Command \<Rightarrow> JobProgress \<Rightarrow> trace \<Rightarrow> (exc + progress_result) \<times> trace" where
  "progress p job_id command jp w =
     (let sub = make_job_subject (sdk p) job_id (Command_value command);
          data_dict =
            [(''progress'', Json (JInt (JobProgress.progress jp))),
             (''frame'', Json (JDict [(''title'', JStr (Frame.title (frame jp))),
                                      (''content'', JStr (content (frame jp)))]))] @
            (case JobProgress.details jp of
               None \<Rightarrow> []
             | Some d \<Rightarrow> (if d \<noteq> [] then [(''details'', py_dict d)] else []));
          max_retries = 3
      in and_then (json_dumps (py_dict data_dict), w) (\<lambda>data_bytes w.
         progress_loop (sdk p) sub data_bytes max_retries [0..<max_retries] w))"

definition done_job :: "Plugin \<Rightarrow> string \<Rightarrow> any_dict \<Rightarrow> trace \<Rightarrow> (exc + progress_result) \<times> trace" where
  "done_job p job_id d w =
     progress p job_id PROGRESS
       \<lparr> JobProgress.progress = 100,
         frame = \<lparr> Frame.title = ''Completed'', content = ''Job completed successfully'' \<rparr>,
         JobProgress.details = Some d \<rparr> w"

section \<open>events.py: EventLogger\<close>

definition event_dict :: "PluginEvent \<Rightarrow> pyval" where
  "event_dict ev =
     py_dict ([(''event'', Json (JStr (EventType_value (event ev)))),
               (''level'', Json (JStr (LogLevel_value (level ev)))),
               (''source'', Json (JStr (source ev))),
               (''message'', Json (JStr (message ev))),
               (''timestamp'', Json (JInt (timestamp ev)))] @
              (case PluginEvent.details ev of
                 None \<Rightarrow> []
               | Some d \<Rightarrow> (if d \<noteq> [] then [(''details'', py_dict d)] else [])))"

text \<open>\<open>json.loads(resp.data.decode())\<close>.\<close>

fun loads_decode :: "body \<Rightarrow> exc + json" where
  "loads_decode Empty = Inl JSONDecodeError"
| "loads_decode Invalid_utf8 = Inl UnicodeDecodeError"
| "loads_decode Not_json = Inl JSONDecodeError"
| "loads_decode (Json_text v) = Inr v"

text \<open>
  The inner \<open>try\<close> of the senders: parse the reply and look at its \<open>result\<close>; only a
  \<open>JSONDecodeError\<close> is caught here. \<open>.get\<close> exists on a dict only.
\<close>

definition check_response :: "Msg \<Rightarrow> trace \<Rightarrow> (exc + unit) \<times> trace" where
  "check_response resp w =
     (case (case loads_decode (Msg.data resp) of
              Inl e \<Rightarrow> (Inl e, w)
            | Inr (JDict d) \<Rightarrow>
                (if map_of d ''result'' \<noteq> Some (JStr ''OK'') then (Inr (), w @ [Printed])
                 else (Inr (), w))
            | Inr _ \<Rightarrow> (Inl AttributeError, w)) of
        (Inl JSONDecodeError, w1) \<Rightarrow> (Inr (), w1)
      | r \<Rightarrow> r)"

text \<open>
  What \<open>send_event\<close> and \<open>send_multiple_events\<close> share after building their list:
  \<open>json.dumps\<close> of the list, which is before the \<open>try\<close> and raises to the caller;
  the subject and the headers; then the outer \<open>try\<close>, with the request and the check
  of a non-empty reply, whose \<open>except Exception\<close> prints and swallows.
\<close>

definition send_body :: "SorenSDK \<Rightarrow> pyval \<Rightarrow> trace \<Rightarrow> (exc + unit) \<times> trace" where
  "send_body s events_list w =
     and_then (json_dumps events_list, w) (\<lambda>body w.
       (let subject = fmt (event_channel (config s)) @ ''.'' @ fmt (plugin_id (config s)) @ ''.log'';
            headers = (case auth_key (config s) of
                         None \<Rightarrow> None
                       | Some k \<Rightarrow> (if k \<noteq> [] then Some [(''Authorization'', k)] else None))
        in case and_then (conn_request s subject body headers w) (\<lambda>resp w.
                  (if Msg.data resp \<noteq> Empty then check_response resp w else (Inr (), w))) of
             (Inl e, w1) \<Rightarrow> (Inr (), w1 @ [Printed])
           | (Inr u, w1) \<Rightarrow> (Inr (), w1)))"

definition send_event :: "SorenSDK \<Rightarrow> PluginEvent \<Rightarrow> trace \<Rightarrow> (exc + unit) \<times> trace" where
  "send_event s ev w =
     (if \<not> truthy_str (event_channel (config s)) then (Inr (), w)
      else send_body s (py_list [event_dict ev]) w)"

definition send_multiple_events :: "SorenSDK \<Rightarrow> PluginEvent list \<Rightarrow> trace \<Rightarrow> (exc + unit) \<times> trace" where
  "send_multiple_events s evs w =
     (if \<not> truthy_str (event_channel (config s)) then (Inr (), w)
      else send_body s (py_list (map event_dict evs)) w)"

text \<open>\<open>log\<close> and \<open>emit_event\<close>; \<open>now\<close> is \<open>int(time.time())\<close>.\<close>

definition log ::
  "SorenSDK \<Rightarrow> int \<Rightarrow> string \<Rightarrow> LogLevel \<Rightarrow> string \<Rightarrow> any_dict option \<Rightarrow> trace \<Rightarrow> (exc + unit) \<times> trace" where
  "log s now src lvl msg det w =
     send_event s
       \<lparr> event = LOG, level = lvl, source = fmt (plugin_id (config s)) @ '' - '' @ src,
         message = msg, timestamp = now, PluginEvent.details = det \<rparr> w"

definition emit_event ::
  "SorenSDK \<Rightarrow> int \<Rightarrow> EventType \<Rightarrow> any_dict option \<Rightarrow> trace \<Rightarrow> (exc + unit) \<times> trace" where
  "emit_event s now event_type d w =
     send_event s
       \<lparr> event = event_type, level = INFO, source = fmt (plugin_id (config s)),
         message = ''Event: '' @ EventType_value event_type, timestamp = now,
         PluginEvent.details = d \<rparr> w"

section \<open>Vocabulary of the properties\<close>

text \<open>
  The SDK with its plugin identifier or its event channel replaced, and the plugin with
  its connection replaced.
\<close>

definition with_plugin_id :: "SorenSDK \<Rightarrow> string \<Rightarrow> SorenSDK" where
  "with_plugin_id s pid = s\<lparr>config := (config s)\<lparr>plugin_id := Some pid\<rparr>\<rparr>"

definition with_event_channel :: "SorenSDK \<Rightarrow> string option \<Rightarrow> SorenSDK" where
  "with_event_channel s ch = s\<lparr>config := (config s)\<lparr>event_channel := ch\<rparr>\<rparr>"

definition connected :: "Plugin \<Rightarrow> transport \<Rightarrow> Plugin" where
  "connected p t = p\<lparr>sdk := (sdk p)\<lparr>conn := Some t\<rparr>\<rparr>"

definition disconnected :: "Plugin \<Rightarrow> Plugin" where
  "disconnected p = p\<lparr>sdk := (sdk p)\<lparr>conn := None\<rparr>\<rparr>"

text \<open>A connection on which every subscribe succeeds, whatever else it does.\<close>

definition accepting :: "transport \<Rightarrow> transport" where
  "accepting t = t\<lparr>subscribe_outcome := (\<lambda>w subject. None)\<rparr>"

text \<open>A connection on which every request raises \<open>NoRespondersError\<close>.\<close>

definition no_responders :: "transport \<Rightarrow> transport" where
  "no_responders t = t\<lparr>request_outcome := (\<lambda>w subject body. Inl NoRespondersError)\<rparr>"

text \<open>
  Details all of whose values are JSON values, and a job progress and an event carrying
  such details (or none); these are the details \<open>json.dumps\<close> accepts.
\<close>

definition json_details :: "dict \<Rightarrow> any_dict" where
  "json_details d = map (\<lambda>(k, j). (k, Json j)) d"

definition with_json_details :: "JobProgress \<Rightarrow> dict option \<Rightarrow> JobProgress" where
  "with_json_details jp dd = jp\<lparr>JobProgress.details := map_option json_details dd\<rparr>"

definition event_with_json_details :: "PluginEvent \<Rightarrow> dict option \<Rightarrow> PluginEvent" where
  "event_with_json_details ev dd = ev\<lparr>PluginEvent.details := map_option json_details dd\<rparr>"

text \<open>
  The settings-submit reply subject as the specification words it: \<open>replyTo\<close>,
  defaulting to a fixed string when it is empty.
\<close>

definition resolved_reply_to :: "Settings \<Rightarrow> string" where
  "resolved_reply_to s =
     (if Settings.reply_to s = [] then ''_settings.config.submit'' else Settings.reply_to s)"

text \<open>
  The subscriptions of the three phases of \<open>start\<close> as ordered lists of subject and
  closure, and the sequential binding of such a list: each subscribe is followed by one
  info log line, and the first subscribe that raises ends the run with its exception.
\<close>

definition intro_binds :: "Plugin \<Rightarrow> (string \<times> callback) list" where
  "intro_binds p =
     (case intro p of
        None \<Rightarrow> []
      | Some i \<Rightarrow>
          (make_intro_subject (sdk p), Intro_callback) #
          (case requirements i of
             None \<Rightarrow> []
           | Some r \<Rightarrow>
               (if Requirements.reply_to r \<noteq> []
                then [(make_subject (sdk p) (Requirements.reply_to r), Req_callback)] else [])))"

definition settings_binds :: "Plugin \<Rightarrow> (string \<times> callback) list" where
  "settings_binds p =
     (make_settings_subject (sdk p), Settings_callback) #
     (case settings p of
        None \<Rightarrow> []
      | Some s \<Rightarrow> [(make_subject (sdk p) (resolved_reply_to s), Submit_callback)])"

definition action_binds :: "SorenSDK \<Rightarrow> Action \<Rightarrow> (string \<times> callback) list" where
  "action_binds s a =
     [(make_form_subject s (method a), Form_callback a),
      (make_action_cpu s (method a), Request_callback a)]"

definition actions_binds :: "Plugin \<Rightarrow> (string \<times> callback) list" where
  "actions_binds p =
     (make_actions_list_subject (sdk p), List_callback) #
     concat (map (action_binds (sdk p)) (actions p))"

fun run_binds :: "transport \<Rightarrow> (string \<times> callback) list \<Rightarrow> trace \<Rightarrow> (exc + unit) \<times> trace" where
  "run_binds t [] w = (Inr (), w)"
| "run_binds t ((subject, cb) # rest) w =
     (case subscribe_outcome t w subject of
        Some e \<Rightarrow> (Inl e, w @ [Subscribe subject cb])
      | None \<Rightarrow> run_binds t rest (w @ [Subscribe subject cb, Logged Info]))"

text \<open>The subjects on which a trace called subscribe, in order.\<close>

fun subscribed_subjects :: "trace \<Rightarrow> string list" where
  "subscribed_subjects [] = []"
| "subscribed_subjects (Subscribe subject cb # w) = subject # subscribed_subjects w"
| "subscribed_subjects (e # w) = subscribed_subjects w"

text \<open>The subscriptions of a trace that bind the requirements-submit closure.\<close>

fun is_req_subscription :: "effect \<Rightarrow> bool" where
  "is_req_subscription (Subscribe subject Req_callback) = True"
| "is_req_subscription e = False"

text \<open>The effects that follow the \<open>n\<close>-th request of a trace, up to the next request.\<close>

fun is_request :: "effect \<Rightarrow> bool" where
  "is_request (Request subject b timeout headers) = True"
| "is_request e = False"

fun after_request :: "nat \<Rightarrow> trace \<Rightarrow> trace" where
  "after_request n [] = []"
| "after_request n (e # w) =
     (if is_request e then
        (if n = 1 then takeWhile (\<lambda>x. \<not> is_request x) w else after_request (n - 1) w)
      else after_request n w)"

subsection \<open>Concrete inputs\<close>

definition example_config :: Config where
  "example_config =
     \<lparr> agent_uri = Some ''nats://localhost:4222'', plugin_id = Some ''abc'', auth_key = None,
       event_channel = None, store_channel = None \<rparr>"

definition silent_transport :: transport where
  "silent_transport =
     \<lparr> subscribe_outcome = (\<lambda>w subject. None),
       request_outcome = (\<lambda>w subject b. Inl NoRespondersError),
       flush_outcome = (\<lambda>w. None) \<rparr>"

text \<open>A connection that refuses the intro subject of plugin \<open>abc\<close> and nothing else.\<close>

definition intro_refusing_transport :: transport where
  "intro_refusing_transport =
     \<lparr> subscribe_outcome =
         (\<lambda>w subject. if subject = ''soren.v2.abc.@intro''
                        then Some (OtherError ''subscribe failed'') else None),
       request_outcome = (\<lambda>w subject b. Inl NoRespondersError),
       flush_outcome = (\<lambda>w. None) \<rparr>"

definition example_sdk :: SorenSDK where
  "example_sdk = \<lparr> config = example_config, conn = Some silent_transport, closed = False \<rparr>"

definition example_intro :: PluginIntro where
  "example_intro =
     \<lparr> name = ''demo'', author = ''someone'', version = ''1.0.0'', requirements = None \<rparr>"

definition example_handler :: handler_fn where
  "example_handler = (\<lambda>m. Returns (JDict [(''status'', JStr ''accepted'')]))"

definition example_plugin :: Plugin where
  "example_plugin =
     \<lparr> sdk = example_sdk, intro = Some example_intro, settings = None, actions = [] \<rparr>"

text \<open>The example SDK with an event channel, and a log event whose details hold a set.\<close>

definition event_sdk :: SorenSDK where
  "event_sdk = with_event_channel example_sdk (Some ''events'')"

definition set_valued_event :: PluginEvent where
  "set_valued_event =
     \<lparr> event = LOG, level = INFO, source = ''abc - scan'', message = ''started'',
       timestamp = 0, PluginEvent.details = Some [(''k'', Unserialisable)] \<rparr>"

definition example_progress :: JobProgress where
  "example_progress =
     \<lparr> JobProgress.progress = 50, frame = \<lparr> Frame.title = ''T'', content = ''C'' \<rparr>,
       JobProgress.details = None \<rparr>"

section \<open>Subject registry\<close>

text \<open>
  Claim C1. For every plugin identifier, method, job identifier, command and suffix the
  subject functions give exactly the strings of the wire contract with namespace
  \<open>soren\<close>: intro, settings, actions list, form, execute, job and custom subject; in
  particular the intro subject of plugin \<open>abc\<close> is \<open>soren.v2.abc.@intro\<close>.
\<close>

theorem subject_registry_wire_contract:
  "make_intro_subject (with_plugin_id s pid) = ''soren.v2.'' @ pid @ ''.@intro'' \<and>
   make_settings_subject (with_plugin_id s pid) = ''soren.v2.'' @ pid @ ''.@settings'' \<and>
   make_actions_list_subject (with_plugin_id s pid) = ''soren.v2.'' @ pid @ ''.@actions'' \<and>
   make_form_subject (with_plugin_id s pid) meth = ''soren.v2.'' @ pid @ ''.'' @ meth @ ''.@form'' \<and>
   make_action_cpu (with_plugin_id s pid) meth = ''soren.cpu.'' @ pid @ ''.'' @ meth \<and>
   make_job_subject (with_plugin_id s pid) job_id command =
     ''soren.cpu.'' @ pid @ ''.'' @ job_id @ ''.'' @ command \<and>
   make_subject (with_plugin_id s pid) suffix = ''soren.v2.'' @ pid @ ''.'' @ suffix \<and>
   make_intro_subject (with_plugin_id s ''abc'') = ''soren.v2.abc.@intro''"
  by (simp add: with_plugin_id_def make_intro_subject_def make_settings_subject_def
      make_actions_list_subject_def make_form_subject_def make_action_cpu_def
      make_job_subject_def make_subject_def)

text \<open>
  Claim C8. For every SDK, the execute subject and the form subject are functions of
  the method that take distinct methods to distinct subjects: two subjects are equal
  exactly when the methods are.
\<close>

theorem execute_form_injective_in_method:
  "(make_action_cpu s m1 = make_action_cpu s m2 \<longleftrightarrow> m1 = m2) \<and>
   (make_form_subject s m1 = make_form_subject s m2 \<longleftrightarrow> m1 = m2)"
  by (simp add: make_action_cpu_def make_form_subject_def)

text \<open>C8 at two distinct methods of the example SDK.\<close>

theorem execute_form_injective_in_method_witness:
  "make_action_cpu example_sdk ''scan'' \<noteq> make_action_cpu example_sdk ''prepare'' \<and>
   make_form_subject example_sdk ''scan'' \<noteq> make_form_subject example_sdk ''prepare''"
  using execute_form_injective_in_method [of example_sdk "''scan''" "''prepare''"]
  by simp

text \<open>
  Claim C9. The subject functions are not jointly injective across roles: the execute
  subject of a method made of a job identifier, a dot and a command is the job subject
  of that job identifier and command.
\<close>

theorem execute_collides_with_job:
  "make_action_cpu s (job_id @ ''.'' @ command) = make_job_subject s job_id command"
  by (simp add: make_action_cpu_def make_job_subject_def)

section \<open>Construction\<close>

lemma truthy_str_iff: "truthy_str x = (x \<noteq> None \<and> x \<noteq> Some [])"
  by (cases x) auto

text \<open>
  Claim C6. Constructing the SDK raises exactly when the agent URI or the plugin
  identifier of the configuration is absent or empty; for a configuration built by
  \<open>Config\<close>, exactly when one of the two is absent or empty both as argument and in the
  environment; for \<open>NewFromEnv\<close>, exactly when one of the two environment variables is.
\<close>

theorem construction_requires_uri_and_id:
  "isl (SorenSDK_init c) =
     (agent_uri c = None \<or> agent_uri c = Some [] \<or> plugin_id c = None \<or> plugin_id c = Some []) \<and>
   isl (SorenSDK_init (Config_init getenv a p k e st)) =
     (((a = None \<or> a = Some []) \<and> (getenv ''AGENT_URI'' = None \<or> getenv ''AGENT_URI'' = Some [])) \<or>
      ((p = None \<or> p = Some []) \<and> (getenv ''PLUGIN_ID'' = None \<or> getenv ''PLUGIN_ID'' = Some []))) \<and>
   isl (NewFromEnv getenv) =
     (getenv ''AGENT_URI'' = None \<or> getenv ''AGENT_URI'' = Some [] \<or>
      getenv ''PLUGIN_ID'' = None \<or> getenv ''PLUGIN_ID'' = Some [])"
proof -
  have init: "isl (SorenSDK_init c) = (\<not> truthy_str (agent_uri c) \<or> \<not> truthy_str (plugin_id c))" for c
    by (simp add: SorenSDK_init_def)
  have por: "truthy_str (py_or x y) = (truthy_str x \<or> truthy_str y)" for x y
    by (simp add: py_or_def)
  have built: "isl (SorenSDK_init (Config_init getenv a p k e st)) =
      ((\<not> truthy_str a \<and> \<not> truthy_str (getenv ''AGENT_URI'')) \<or>
       (\<not> truthy_str p \<and> \<not> truthy_str (getenv ''PLUGIN_ID'')))" for a p k e st
    by (simp add: init por Config_init_def)
  have c1: "isl (SorenSDK_init c) =
     (agent_uri c = None \<or> agent_uri c = Some [] \<or> plugin_id c = None \<or> plugin_id c = Some [])"
    unfolding init truthy_str_iff by auto
  have c2: "isl (SorenSDK_init (Config_init getenv a p k e st)) =
     (((a = None \<or> a = Some []) \<and> (getenv ''AGENT_URI'' = None \<or> getenv ''AGENT_URI'' = Some [])) \<or>
      ((p = None \<or> p = Some []) \<and> (getenv ''PLUGIN_ID'' = None \<or> getenv ''PLUGIN_ID'' = Some [])))"
    unfolding built truthy_str_iff by auto
  have c3: "isl (NewFromEnv getenv) =
     (getenv ''AGENT_URI'' = None \<or> getenv ''AGENT_URI'' = Some [] \<or>
      getenv ''PLUGIN_ID'' = None \<or> getenv ''PLUGIN_ID'' = Some [])"
    unfolding NewFromEnv_def built truthy_str_iff by auto
  show ?thesis using c1 c2 c3 by blast
qed

text \<open>
  C6 at concrete configurations: an empty plugin identifier and an absent agent URI
  raise; the example configuration and an environment that sets every variable do not.
\<close>

theorem construction_requires_uri_and_id_witness:
  "isl (SorenSDK_init (example_config\<lparr>plugin_id := Some []\<rparr>)) \<and>
   isl (SorenSDK_init (Config_init (\<lambda>k. None) None (Some ''abc'') None None None)) \<and>
   \<not> isl (SorenSDK_init example_config) \<and>
   \<not> isl (NewFromEnv (\<lambda>k. Some ''x''))"
  using construction_requires_uri_and_id [of "example_config\<lparr>plugin_id := Some []\<rparr>" "\<lambda>k. None" None "Some ''abc''" None None None]
    construction_requires_uri_and_id [of example_config "\<lambda>k. Some ''x''" None None None None None]
  by (simp add: example_config_def)

section \<open>Serialisation\<close>

lemma and_then_Inr: "and_then (Inr a, w) f = f a w"
  by (simp add: and_then_def)

lemma json_items_json_details: "json_items (json_details d) = Some d"
  by (induction d) (auto simp add: json_details_def)

text \<open>Every details dictionary that serialises is one of JSON values.\<close>

lemma json_items_complete: "json_items d = Some js \<Longrightarrow> d = json_details js"
proof (induction d arbitrary: js rule: json_items.induct)
  case 1
  then show ?case by (simp add: json_details_def)
next
  case (2 k j kvs)
  then show ?case by (auto simp add: json_details_def)
next
  case (3 k kvs)
  then show ?case by simp
qed

lemma py_dict_json_details: "py_dict (json_details d) = Json (JDict d)"
  by (simp add: py_dict_def json_items_json_details)

lemma json_details_empty: "(json_details d = []) = (d = [])"
  by (simp add: json_details_def)

lemma dumps_with_details:
  "json_dumps (py_dict ([(''progress'', Json a), (''frame'', Json fr)] @
      (if json_details d \<noteq> [] then [(''details'', py_dict (json_details d))] else []))) =
   Inr (Dumps (JDict ([(''progress'', a), (''frame'', fr)] @
      (if d \<noteq> [] then [(''details'', JDict d)] else []))))"
  unfolding py_dict_json_details json_details_empty
  by (simp add: py_dict_def json_dumps_def)

lemma progress_body_json:
  "json_dumps (py_dict ([(''progress'', Json a), (''frame'', Json fr)] @
      (case map_option json_details dd of
         None \<Rightarrow> []
       | Some d \<Rightarrow> (if d \<noteq> [] then [(''details'', py_dict d)] else [])))) =
   Inr (Dumps (JDict ([(''progress'', a), (''frame'', fr)] @
      (case dd of
         None \<Rightarrow> []
       | Some d \<Rightarrow> (if d \<noteq> [] then [(''details'', JDict d)] else [])))))"
proof (cases dd)
  case None
  then show ?thesis by (simp add: py_dict_def json_dumps_def)
next
  case (Some d)
  with dumps_with_details [of a fr d] show ?thesis by simp
qed

section \<open>Job progress\<close>

lemma upt_3: "[0..<3] = [0, 1, 2::nat]"
  by (simp add: upt_rec)

text \<open>
  Claim C4. For every job identifier and details dictionary, \<open>done\<close> is the call of
  \<open>progress\<close> with the command \<open>PROGRESS\<close>, progress 100, the frame titled Completed
  with content Job completed successfully and the given details, and returns its
  result. Spelled out, it serialises the dict of those three fields (details left out
  when empty) and runs the retry loop on the subject of that job and command
  \<open>progress\<close>; for details of JSON values the body is the JSON dict of the fields.
\<close>

theorem done_is_progress_completed:
  "done_job p job_id d w =
     progress p job_id PROGRESS
       \<lparr> JobProgress.progress = 100,
         frame = \<lparr> Frame.title = ''Completed'', content = ''Job completed successfully'' \<rparr>,
         JobProgress.details = Some d \<rparr> w \<and>
   done_job p job_id d w =
     and_then
       (json_dumps (py_dict ([(''progress'', Json (JInt 100)),
                     (''frame'', Json (JDict [(''title'', JStr ''Completed''),
                                              (''content'', JStr ''Job completed successfully'')]))] @
                    (if d \<noteq> [] then [(''details'', py_dict d)] else []))), w)
       (\<lambda>body w. progress_loop (sdk p) (make_job_subject (sdk p) job_id ''progress'') body
                    3 [0, 1, 2] w) \<and>
   done_job p job_id (json_details dj) w =
     progress_loop (sdk p) (make_job_subject (sdk p) job_id ''progress'')
       (Dumps (JDict ([(''progress'', JInt 100),
                       (''frame'', JDict [(''title'', JStr ''Completed''),
                                          (''content'', JStr ''Job completed successfully'')])] @
                      (if dj \<noteq> [] then [(''details'', JDict dj)] else []))))
       3 [0, 1, 2] w"
proof -
  have a: "done_job p job_id d w =
     and_then
       (json_dumps (py_dict ([(''progress'', Json (JInt 100)),
                     (''frame'', Json (JDict [(''title'', JStr ''Completed''),
                                              (''content'', JStr ''Job completed successfully'')]))] @
                    (if d \<noteq> [] then [(''details'', py_dict d)] else []))), w)
       (\<lambda>body w. progress_loop (sdk p) (make_job_subject (sdk p) job_id ''progress'') body
                    3 [0, 1, 2] w)" for d
    by (simp add: done_job_def progress_def upt_3 Let_def del: progress_loop.simps)
  have c: "done_job p job_id (json_details dj) w =
     progress_loop (sdk p) (make_job_subject (sdk p) job_id ''progress'')
       (Dumps (JDict ([(''progress'', JInt 100),
                       (''frame'', JDict [(''title'', JStr ''Completed''),
                                          (''content'', JStr ''Job completed successfully'')])] @
                      (if dj \<noteq> [] then [(''details'', JDict dj)] else []))))
       3 [0, 1, 2] w"
    unfolding a dumps_with_details and_then_Inr by (rule refl)
  show ?thesis using a c by (simp add: done_job_def del: progress_loop.simps)
qed

lemma attempt_no_responders:
  "conn s = Some (no_responders t) \<Longrightarrow>
   progress_attempt s sub b w = (Inl NoRespondersError, w @ [Request sub b 3 None])"
  by (simp add: progress_attempt_def conn_request_def and_then_def no_responders_def)

lemma loop_no_responders:
  assumes "conn s = Some (no_responders t)"
  shows "progress_loop s sub b 3 [0, 1, 2] w =
    (Inr (Returned_exc NoRespondersError),
     w @ [Request sub b 3 None, Sleep 1, Request sub b 3 None, Logged Warning, Sleep 1,
          Request sub b 3 None, Logged Error])"
  by (simp add: attempt_no_responders [OF assms])

text \<open>
  Claim C3, amended. For every job progress whose details are JSON values (or absent),
  on a connection where every request raises the no-responder failure, \<open>progress\<close>
  makes exactly three requests with a sleep of 1 after the first and after the second;
  the first failure logs nothing, the second failure logs one warning, and the third
  failure logs no warning: it logs an error, and the failure is returned as a value,
  not raised.
\<close>

theorem progress_no_responders:
  "progress (connected p (no_responders t)) job_id command (with_json_details jp dd) w =
     (let sub = make_job_subject (sdk p) job_id (Command_value command);
          body = Dumps (JDict ([(''progress'', JInt (JobProgress.progress jp)),
                  (''frame'', JDict [(''title'', JStr (Frame.title (frame jp))),
                                     (''content'', JStr (content (frame jp)))])] @
                  (case dd of
                     None \<Rightarrow> []
                   | Some d \<Rightarrow> (if d \<noteq> [] then [(''details'', JDict d)] else []))));
          req = Request sub body 3 None
      in (Inr (Returned_exc NoRespondersError),
          w @ [req, Sleep 1, req, Logged Warning, Sleep 1, req, Logged Error]))"
proof -
  have c: "conn (sdk (connected p (no_responders t))) = Some (no_responders t)"
    by (simp add: connected_def)
  have s: "make_job_subject (sdk (connected p (no_responders t))) j u = make_job_subject (sdk p) j u" for j u
    by (simp add: connected_def make_job_subject_def)
  have f: "JobProgress.details (with_json_details jp dd) = map_option json_details dd"
    "JobProgress.progress (with_json_details jp dd) = JobProgress.progress jp"
    "frame (with_json_details jp dd) = frame jp"
    by (simp_all add: with_json_details_def)
  show ?thesis
    unfolding progress_def Let_def upt_3 f progress_body_json s and_then_Inr
      loop_no_responders [OF c]
    by (rule refl)
qed

text \<open>
  Claim C3 as stated fails: it has the failures of attempts 2 and 3 both logged as
  warnings. For the example plugin, whose connection answers no request, and a progress
  without details, the effects after the third request are the error log alone; the
  only warning follows the second.
\<close>

theorem third_failure_logs_no_warning:
  "after_request 1 (snd (progress example_plugin ''j1'' PROGRESS example_progress [])) = [Sleep 1] \<and>
   after_request 2 (snd (progress example_plugin ''j1'' PROGRESS example_progress []))
     = [Logged Warning, Sleep 1] \<and>
   after_request 3 (snd (progress example_plugin ''j1'' PROGRESS example_progress []))
     = [Logged Error] \<and>
   Logged Warning \<notin> set (after_request 3
     (snd (progress example_plugin ''j1'' PROGRESS example_progress [])))"
proof -
  have c: "conn (sdk example_plugin) = Some (no_responders silent_transport)"
    by (simp add: example_plugin_def example_sdk_def no_responders_def silent_transport_def)
  have d: "json_dumps (py_dict [(''progress'', Json (JInt 50)),
      (''frame'', Json (JDict [(''title'', JStr ''T''), (''content'', JStr ''C'')]))]) =
    Inr (Dumps (JDict [(''progress'', JInt 50),
      (''frame'', JDict [(''title'', JStr ''T''), (''content'', JStr ''C'')])]))"
    by (simp add: py_dict_def json_dumps_def)
  have "progress example_plugin ''j1'' PROGRESS example_progress [] =
      and_then (json_dumps (py_dict [(''progress'', Json (JInt 50)),
          (''frame'', Json (JDict [(''title'', JStr ''T''), (''content'', JStr ''C'')]))]), [])
        (\<lambda>data_bytes w. progress_loop (sdk example_plugin) ''soren.cpu.abc.j1.progress''
           data_bytes 3 [0, 1, 2] w)"
    unfolding progress_def Let_def upt_3
    by (simp add: example_progress_def example_plugin_def example_sdk_def example_config_def
        make_job_subject_def del: progress_loop.simps)
  then have "snd (progress example_plugin ''j1'' PROGRESS example_progress []) =
      [Request ''soren.cpu.abc.j1.progress''
         (Dumps (JDict [(''progress'', JInt 50),
            (''frame'', JDict [(''title'', JStr ''T''), (''content'', JStr ''C'')])])) 3 None,
       Sleep 1,
       Request ''soren.cpu.abc.j1.progress''
         (Dumps (JDict [(''progress'', JInt 50),
            (''frame'', JDict [(''title'', JStr ''T''), (''content'', JStr ''C'')])])) 3 None,
       Logged Warning, Sleep 1,
       Request ''soren.cpu.abc.j1.progress''
         (Dumps (JDict [(''progress'', JInt 50),
            (''frame'', JDict [(''title'', JStr ''T''), (''content'', JStr ''C'')])])) 3 None,
       Logged Error]"
    unfolding d and_then_Inr loop_no_responders [OF c] by simp
  then show ?thesis by simp
qed

text \<open>
  Details holding a value that does not serialise: \<open>progress\<close> raises \<open>TypeError\<close>
  before any request, on every connection.
\<close>

lemma progress_raises_on_unserialisable_details:
  "json_items d = None \<Longrightarrow> d \<noteq> [] \<Longrightarrow>
   progress p job_id command (jp\<lparr>JobProgress.details := Some d\<rparr>) w = (Inl TypeError, w)"
  by (simp add: progress_def Let_def py_dict_def json_dumps_def and_then_def
      del: progress_loop.simps)

section \<open>Event logging\<close>

lemma send_body_returns: "json_dumps v = Inr b \<Longrightarrow> fst (send_body s v w) = Inr ()"
  by (simp add: send_body_def and_then_Inr Let_def split: prod.splits sum.splits)

lemma event_dict_json:
  "\<exists>j. event_dict (event_with_json_details ev dd) = Json j"
proof (cases dd)
  case None
  then show ?thesis
    by (simp add: event_dict_def event_with_json_details_def py_dict_def)
next
  case (Some d)
  have "event_dict (event_with_json_details ev (Some d)) =
    py_dict ([(''event'', Json (JStr (EventType_value (event ev)))),
               (''level'', Json (JStr (LogLevel_value (level ev)))),
               (''source'', Json (JStr (source ev))),
               (''message'', Json (JStr (message ev))),
               (''timestamp'', Json (JInt (timestamp ev)))] @
              (if d \<noteq> [] then [(''details'', Json (JDict d))] else []))"
    by (simp add: event_dict_def event_with_json_details_def py_dict_json_details
        json_details_empty)
  then show ?thesis using Some by (simp add: py_dict_def)
qed

text \<open>
  What the code does achieve: with the event channel absent or empty \<open>send_event\<close>
  returns at once for every event, and an event whose details are JSON values is sent
  without anything raised, whatever the request raises or answers.
\<close>

lemma send_event_no_channel:
  "send_event (with_event_channel s None) ev w = (Inr (), w)"
  "send_event (with_event_channel s (Some [])) ev w = (Inr (), w)"
  by (simp_all add: send_event_def with_event_channel_def)

lemma send_event_json_details:
  "fst (send_event s (event_with_json_details ev dd) w) = Inr ()"
proof -
  obtain j where "event_dict (event_with_json_details ev dd) = Json j"
    using event_dict_json by blast
  then have "json_dumps (py_list [event_dict (event_with_json_details ev dd)]) = Inr (Dumps (JList [j]))"
    by (simp add: py_list_def json_dumps_def)
  from send_body_returns [OF this] show ?thesis
    by (simp add: send_event_def)
qed

text \<open>
  Claim C5. Event sending never propagates an error to its caller: for every event,
  \<open>send_event\<close> and \<open>log\<close> return normally, with no transport call when no event
  channel is configured. The code breaks this on an event whose details hold a value
  that \<open>json.dumps\<close> rejects: with a channel configured, \<open>send_event\<close> and \<open>log\<close>
  raise \<open>TypeError\<close> to their caller before any request, since the serialisation
  precedes the \<open>try\<close> that is meant to keep event logging from raising.
\<close>

theorem send_event_raises_on_set_valued_details:
  "send_event event_sdk set_valued_event [] = (Inl TypeError, []) \<and>
   log event_sdk 0 ''scan'' INFO ''started'' (Some [(''k'', Unserialisable)]) [] =
     (Inl TypeError, [])"
  by (simp add: send_event_def log_def send_body_def event_dict_def py_dict_def py_list_def
      json_dumps_def and_then_def event_sdk_def with_event_channel_def set_valued_event_def
      example_sdk_def example_config_def)

section \<open>Settings\<close>

text \<open>
  Claim C7. An empty \<open>reply_to\<close> and a \<open>reply_to\<close> left out at construction resolve to
  the same subject, the fixed \<open>_settings.config.submit\<close>; and for every settings
  value the resolved subject is the \<open>replyTo\<close> of the settings-show reply and the
  suffix of the subject on which the submit closure is subscribed.
\<close>

theorem settings_reply_to_default:
  "resolved_reply_to (s\<lparr>Settings.reply_to := []\<rparr>) = ''_settings.config.submit'' \<and>
   resolved_reply_to (Settings_init ui schema None d h) = ''_settings.config.submit'' \<and>
   settings_callback (p\<lparr>settings := Some s\<rparr>) w =
     (Inr (), w @ [Logged Info,
        Respond (Dumps (JDict ([(''replyTo'', JStr (resolved_reply_to s)),
                                (''jsonui'', JDict (Settings.jsonui s)),
                                (''jsonschema'', JDict (Settings.jsonschema s))] @
                               (case Settings.data s of
                                  None \<Rightarrow> []
                                | Some d \<Rightarrow> (if d \<noteq> [] then [(''data'', JDict d)] else [])))))]) \<and>
   settings_handler (connected (p\<lparr>settings := Some s\<rparr>) (accepting t)) w =
     (Inr (), w @ [Subscribe (make_settings_subject (sdk p)) Settings_callback, Logged Info,
                   Subscribe (make_subject (sdk p) (resolved_reply_to s)) Submit_callback,
                   Logged Info])"
  by (simp add: resolved_reply_to_def Settings_init_def settings_callback_def
      settings_handler_def connected_def accepting_def conn_subscribe_def and_then_def
      logger_def make_settings_subject_def make_subject_def)

section \<open>Start\<close>

lemma subscribe_then_log:
  "conn s = Some t \<Longrightarrow>
   and_then (conn_subscribe s subject cb w) (\<lambda>u w. and_then (logger Info w) f) =
     (case subscribe_outcome t w subject of
        Some e \<Rightarrow> (Inl e, w @ [Subscribe subject cb])
      | None \<Rightarrow> f () (w @ [Subscribe subject cb, Logged Info]))"
  by (simp add: conn_subscribe_def and_then_def logger_def split: option.splits)

lemma subscribe_then_log_last:
  "conn s = Some t \<Longrightarrow>
   and_then (conn_subscribe s subject cb w) (\<lambda>u w. logger Info w) =
     run_binds t [(subject, cb)] w"
  by (simp add: conn_subscribe_def and_then_def logger_def split: option.splits)

lemma run_binds_append:
  "run_binds t (xs @ ys) w = and_then (run_binds t xs w) (\<lambda>u w. run_binds t ys w)"
proof (induction xs arbitrary: w)
  case Nil
  show ?case by (simp add: and_then_def)
next
  case (Cons b xs)
  obtain subject cb where b: "b = (subject, cb)" by (cases b)
  show ?case
    by (cases "subscribe_outcome t w subject") (simp_all add: b Cons.IH and_then_def)
qed

lemma intro_handler_binds:
  assumes "conn (sdk p) = Some t"
  shows "intro_handler p w = run_binds t (intro_binds p) w"
proof (cases "intro p")
  case None
  then show ?thesis by (simp add: intro_handler_def intro_binds_def)
next
  case (Some i)
  show ?thesis
  proof (cases "requirements i")
    case None
    with Some show ?thesis
      by (simp add: intro_handler_def intro_binds_def subscribe_then_log [OF assms]
          split: option.splits)
  next
    case (Some r)
    with \<open>intro p = Some i\<close> show ?thesis
      by (simp add: intro_handler_def intro_binds_def subscribe_then_log [OF assms]
          subscribe_then_log_last [OF assms] split: option.splits)
  qed
qed

lemma settings_handler_binds:
  assumes "conn (sdk p) = Some t"
  shows "settings_handler p w = run_binds t (settings_binds p) w"
  by (cases "settings p")
     (simp_all add: settings_handler_def settings_binds_def resolved_reply_to_def
        subscribe_then_log [OF assms] subscribe_then_log_last [OF assms] split: option.splits)

lemma bind_actions_binds:
  assumes "conn s = Some t"
  shows "bind_actions s as w = run_binds t (concat (map (action_binds s) as)) w"
proof (induction as arbitrary: w)
  case Nil
  show ?case by simp
next
  case (Cons a as)
  show ?case
    by (simp add: subscribe_then_log [OF assms] Cons.IH action_binds_def split: option.splits)
qed

lemma actions_handler_binds:
  assumes "conn (sdk p) = Some t"
  shows "actions_handler p w = run_binds t (actions_binds p) w"
  by (simp add: actions_handler_def actions_binds_def subscribe_then_log [OF assms]
      bind_actions_binds [OF assms] split: option.splits)

lemma start_binds:
  assumes "conn (sdk p) = Some t"
  shows "start p w =
    and_then (run_binds t (intro_binds p @ settings_binds p @ actions_binds p) w)
      (\<lambda>u w. logger Info w)"
proof -
  have assoc: "and_then (and_then m f) g = and_then m (\<lambda>a w. and_then (f a w) g)" for m f g
    by (simp add: and_then_def split: prod.splits sum.splits)
  show ?thesis
    by (simp add: start_def run_binds_append assoc intro_handler_binds [OF assms]
        settings_handler_binds [OF assms] actions_handler_binds [OF assms])
qed

lemma start_disconnected:
  assumes "conn (sdk p) = None"
  shows "start p w = (Inl AttributeError, w)"
  by (cases "intro p")
     (simp_all add: start_def intro_handler_def settings_handler_def conn_subscribe_def
        and_then_def assms)

lemma action_binds_conn: "action_binds (s\<lparr>conn := c\<rparr>) = action_binds s"
  by (simp add: fun_eq_iff action_binds_def make_form_subject_def make_action_cpu_def)

lemma binds_connected:
  "intro_binds (connected p t) = intro_binds p"
  "settings_binds (connected p t) = settings_binds p"
  "actions_binds (connected p t) = actions_binds p"
  by (simp_all add: intro_binds_def settings_binds_def actions_binds_def action_binds_conn
      connected_def make_intro_subject_def make_subject_def make_settings_subject_def
      make_actions_list_subject_def split: option.splits)

text \<open>
  Claim C2, amended. \<open>start\<close> binds the intro subscriptions, then the settings
  subscriptions, then the actions list and the per-action subscriptions, in that order
  and one after the other; the binds are not independent: the first subscribe that
  raises ends \<open>start\<close> with that exception and nothing after it is attempted. Without
  a connection \<open>start\<close> raises before any subscribe.
\<close>

theorem start_binds_in_order_until_failure:
  "start (connected p t) w =
     and_then (run_binds t (intro_binds p @ settings_binds p @ actions_binds p) w)
       (\<lambda>u w. logger Info w) \<and>
   start (disconnected p) w = (Inl AttributeError, w)"
proof -
  have "conn (sdk (connected p t)) = Some t" by (simp add: connected_def)
  from start_binds [OF this]
  have a: "start (connected p t) w =
     and_then (run_binds t (intro_binds p @ settings_binds p @ actions_binds p) w)
       (\<lambda>u w. logger Info w)"
    by (simp add: binds_connected)
  have "conn (sdk (disconnected p)) = None" by (simp add: disconnected_def)
  from start_disconnected [OF this] a show ?thesis by simp
qed

text \<open>
  Claim C2 as stated fails: it has every phase attempted whatever the others do. On a
  connection that refuses the intro subject only, \<open>start\<close> of the example plugin
  raises after that one subscribe; the settings subject, which the connection would
  have accepted, is never tried.
\<close>

theorem failed_intro_bind_aborts_start:
  "start (connected example_plugin intro_refusing_transport) [] =
     (Inl (OtherError ''subscribe failed''), [Subscribe ''soren.v2.abc.@intro'' Intro_callback]) \<and>
   subscribe_outcome intro_refusing_transport
     [Subscribe ''soren.v2.abc.@intro'' Intro_callback] ''soren.v2.abc.@settings'' = None \<and>
   ''soren.v2.abc.@settings'' \<notin> set (subscribed_subjects
     (snd (start (connected example_plugin intro_refusing_transport) [])))"
proof -
  have "start (connected example_plugin intro_refusing_transport) [] =
     (Inl (OtherError ''subscribe failed''), [Subscribe ''soren.v2.abc.@intro'' Intro_callback])"
    by (simp add: start_def intro_handler_def connected_def example_plugin_def example_sdk_def
        example_config_def example_intro_def intro_refusing_transport_def conn_subscribe_def
        and_then_def make_intro_subject_def)
  then show ?thesis by (simp add: intro_refusing_transport_def)
qed

section \<open>Intro without requirements\<close>

lemma is_req_subscription_iff: "is_req_subscription (Subscribe subject cb) = (cb = Req_callback)"
  by (cases cb) simp_all

lemma run_binds_no_req:
  "Req_callback \<notin> snd ` set bs \<Longrightarrow>
   filter is_req_subscription (snd (run_binds t bs w)) = filter is_req_subscription w"
proof (induction bs arbitrary: w)
  case Nil
  show ?case by simp
next
  case (Cons b bs)
  obtain subject cb where b: "b = (subject, cb)" by (cases b)
  with Cons.prems have cb: "cb \<noteq> Req_callback" and rest: "Req_callback \<notin> snd ` set bs"
    by auto
  show ?case
    by (cases "subscribe_outcome t w subject")
       (simp_all add: b cb Cons.IH [OF rest] is_req_subscription_iff)
qed

lemma snd_then_log:
  "snd (and_then m (\<lambda>u w. logger l w)) =
     (case fst m of Inl e \<Rightarrow> snd m | Inr u \<Rightarrow> snd m @ [Logged l])"
  by (cases m; cases "fst m") (simp_all add: and_then_def logger_def)

lemma start_no_req:
  assumes "Req_callback \<notin> snd ` set (intro_binds p)"
  shows "filter is_req_subscription (snd (start p w)) = filter is_req_subscription w"
proof (cases "conn (sdk p)")
  case None
  then show ?thesis by (simp add: start_disconnected)
next
  case (Some t)
  have "Req_callback \<notin> snd ` set (intro_binds p @ settings_binds p @ actions_binds p)"
    using assms by (auto simp add: settings_binds_def actions_binds_def action_binds_def
        split: option.splits)
  from run_binds_no_req [OF this, of t w] show ?thesis
    by (simp add: start_binds [OF Some] snd_then_log split: sum.splits)
qed

text \<open>
  Claim C10, amended. For every intro without requirements and every handler,
  \<open>set_intro\<close> stores the intro and drops the handler: the plugin is the one with that
  intro and nothing else changed. \<open>start\<close> then subscribes no requirements-submit
  closure on any connection, so a later requirements-submit message is not delivered
  to that closure and gets no not-implemented reply from it; the closure itself, were
  it called, would raise and send nothing.
\<close>

theorem set_intro_without_requirements_drops_handler:
  "set_intro p (i\<lparr>requirements := None\<rparr>) (Some h) = p\<lparr>intro := Some (i\<lparr>requirements := None\<rparr>)\<rparr> \<and>
   filter is_req_subscription (snd (start (set_intro p (i\<lparr>requirements := None\<rparr>) (Some h)) w))
     = filter is_req_subscription w \<and>
   invoke (set_intro p (i\<lparr>requirements := None\<rparr>) (Some h)) Req_callback m w
     = (Inl AttributeError, w)"
proof -
  have a: "set_intro p (i\<lparr>requirements := None\<rparr>) (Some h) = p\<lparr>intro := Some (i\<lparr>requirements := None\<rparr>)\<rparr>"
    by (simp add: set_intro_def)
  have "Req_callback \<notin> snd ` set (intro_binds (p\<lparr>intro := Some (i\<lparr>requirements := None\<rparr>)\<rparr>))"
    by (simp add: intro_binds_def)
  from start_no_req [OF this] show ?thesis
    by (simp add: a req_callback_def)
qed

text \<open>
  Claim C10 as stated fails in its last part: it has a later requirements-submit
  message answered with the not-implemented reply. For the example intro, which has no
  requirements, set with a handler, \<open>start\<close> subscribes the intro, settings and
  actions-list closures only, and the requirements closure raises instead of replying.
\<close>

theorem no_requirements_no_not_implemented_reply:
  "snd (start (set_intro (Plugin_init example_sdk) example_intro (Some example_handler)) []) =
     [Subscribe ''soren.v2.abc.@intro'' Intro_callback, Logged Info,
      Subscribe ''soren.v2.abc.@settings'' Settings_callback, Logged Info,
      Subscribe ''soren.v2.abc.@actions'' List_callback, Logged Info, Logged Info] \<and>
   invoke (set_intro (Plugin_init example_sdk) example_intro (Some example_handler))
     Req_callback \<lparr> Msg.data = Json_text (JDict []) \<rparr> [] = (Inl AttributeError, []) \<and>
   invoke (set_intro (Plugin_init example_sdk) example_intro (Some example_handler))
     Req_callback \<lparr> Msg.data = Json_text (JDict []) \<rparr> [] \<noteq> (Inr (), [Respond not_implemented])"
  by (simp add: start_def intro_handler_def settings_handler_def actions_handler_def
      set_intro_def Plugin_init_def example_sdk_def example_config_def example_intro_def
      silent_transport_def conn_subscribe_def and_then_def logger_def req_callback_def
      make_intro_subject_def make_settings_subject_def make_actions_list_subject_def)

end
